theory Spec2Isabelle
  imports Complex_Main
begin

section \<open>Platonic Solids Generator: data model\<close>

text \<open>
  The add-on keeps, for each of the five Platonic solids, a literal table of vertex
  coordinates and a literal table of faces (tuples of vertex indices), and builds scene
  objects from them. The current version is \<^verbatim>\<open>v2.py\<close>; \<^verbatim>\<open>old versions/v1.3.py\<close>
  has the same structure, larger coordinates for three solids, the static method
  \<^verbatim>\<open>SolidBuilder.add_object\<close> and the template operator that lays out all five solids;
  \<^verbatim>\<open>old versions/v1.1.py\<close> keeps the tables in one function of the kind's name.

  Coordinates are Python number literals that the source only stores and hands on, never
  computes with; they are modelled as \<^typ>\<open>real\<close> constants with the decimal value of the
  literal. Vertex indices are Python ints.
\<close>

type_synonym vec3 = "real \<times> real \<times> real"
type_synonym rgba = "real \<times> real \<times> real \<times> real"
type_synonym face = "int list"
type_synonym edge = "int \<times> int"
type_synonym geometry = "vec3 list \<times> edge list \<times> face list"

text \<open>The three components of what \<^verbatim>\<open>get_geometry\<close> returns: \<^verbatim>\<open>vertices, [], faces\<close>.\<close>

definition geo_vertices :: "geometry \<Rightarrow> vec3 list" where
  "geo_vertices g = fst g"

definition geo_edges :: "geometry \<Rightarrow> edge list" where
  "geo_edges g = fst (snd g)"

definition geo_faces :: "geometry \<Rightarrow> face list" where
  "geo_faces g = snd (snd g)"

text \<open>The five concrete subclasses of \<^verbatim>\<open>PlatonicSolid\<close>.\<close>

datatype SolidKind = Tetrahedron | Cube | Octahedron | Dodecahedron | Icosahedron

text \<open>
  An instance handed to the builder is either of the base class itself, whose
  \<^verbatim>\<open>get_geometry\<close> raises, or of one of the subclasses.
\<close>

datatype solid = PlatonicSolid | Instance SolidKind

datatype py_error = NotImplementedError

subsection \<open>The geometry tables of v2.py\<close>

fun get_geometry :: "SolidKind \<Rightarrow> geometry" where
  "get_geometry Tetrahedron =
     ([(0.943, 0, -0.333), (-0.471, -0.816, -0.333), (-0.471, 0.816, -0.333), (0, 0, 1)],
      [],
      [[0, 1, 2], [0, 1, 3], [0, 2, 3], [1, 2, 3]])"
| "get_geometry Cube =
     ([(1, 1, 1), (1, -1, 1), (-1, -1, 1), (-1, 1, 1),
       (1, 1, -1), (1, -1, -1), (-1, -1, -1), (-1, 1, -1)],
      [],
      [[0, 1, 2, 3], [4, 5, 6, 7], [0, 4, 5, 1], [1, 5, 6, 2], [2, 6, 7, 3], [3, 7, 4, 0]])"
| "get_geometry Octahedron =
     ([(0, 0, -1), (-1, 0, 0), (0, -1, 0), (1, 0, 0), (0, 1, 0), (0, 0, 1)],
      [],
      [[0, 1, 2], [0, 2, 3], [0, 3, 4], [0, 4, 1],
       [5, 1, 2], [5, 2, 3], [5, 3, 4], [5, 4, 1]])"
| "get_geometry Dodecahedron =
     ([(1, 1, 1), (1, -1, 1), (-1, -1, 1), (-1, 1, 1),
       (1, 1, -1), (1, -1, -1), (-1, -1, -1), (-1, 1, -1),
       (0, 1.618, 0.618), (0, -1.618, 0.618),
       (0, -1.618, -0.618), (0, 1.618, -0.618),
       (0.618, 0, 1.618), (-0.618, 0, 1.618),
       (-0.618, 0, -1.618), (0.618, 0, -1.618),
       (1.618, 0.618, 0), (-1.618, 0.618, 0),
       (-1.618, -0.618, 0), (1.618, -0.618, 0)],
      [],
      [[8, 11, 4, 16, 0], [8, 11, 7, 17, 3], [9, 10, 5, 19, 1],
       [9, 10, 6, 18, 2], [12, 13, 3, 8, 0], [12, 13, 2, 9, 1],
       [15, 14, 7, 11, 4], [15, 14, 6, 10, 5], [16, 19, 1, 12, 0],
       [16, 19, 5, 15, 4], [17, 18, 2, 13, 3], [17, 18, 6, 14, 7]])"
| "get_geometry Icosahedron =
     ([(0, 1, 1.618), (0, -1, 1.618), (0, 1, -1.618), (0, -1, -1.618),
       (1.618, 0, 1), (1.618, 0, -1), (-1.618, 0, 1), (-1.618, 0, -1),
       (1, 1.618, 0), (-1, 1.618, 0), (1, -1.618, 0), (-1, -1.618, 0)],
      [],
      [[0, 1, 4], [0, 1, 6], [2, 3, 5], [2, 3, 7],
       [4, 5, 8], [4, 5, 10], [6, 7, 9], [6, 7, 11],
       [8, 9, 0], [8, 9, 2], [10, 11, 1], [10, 11, 3],
       [0, 4, 8], [1, 4, 10], [1, 6, 11], [0, 6, 9],
       [2, 5, 8], [3, 5, 10], [3, 7, 11], [2, 7, 9]])"

subsection \<open>The geometry tables of v1.3.py\<close>

fun v1_3_get_geometry :: "SolidKind \<Rightarrow> geometry" where
  "v1_3_get_geometry Tetrahedron =
     ([(1.633324, 0.943, -0.666),
       (0.000204, -1.884353, -0.666),
       (-1.631796, 0.942353, -0.666),
       (0.0, 0.0, 2)],
      [],
      [[0, 1, 2], [0, 1, 3], [0, 2, 3], [1, 2, 3]])"
| "v1_3_get_geometry Cube =
     ([(1.5, 1.5, 1.5),
       (1.5, -1.5, 1.5),
       (-1.5, -1.5, 1.5),
       (-1.5, 1.5, 1.5),
       (1.5, 1.5, -1.5),
       (1.5, -1.5, -1.5),
       (-1.5, -1.5, -1.5),
       (-1.5, 1.5, -1.5)],
      [],
      [[0, 1, 2, 3], [4, 5, 6, 7], [0, 4, 5, 1], [1, 5, 6, 2], [2, 6, 7, 3], [3, 7, 4, 0]])"
| "v1_3_get_geometry Octahedron =
     ([(0.0, 0.0, -1.5),
       (-1.5, 0.0, 0.0),
       (0.0, -1.5, 0.0),
       (1.5, 0.0, 0.0),
       (0.0, 1.5, 0.0),
       (0.0, 0.0, 1.5)],
      [],
      [[0, 1, 2], [0, 2, 3], [0, 3, 4], [0, 4, 1],
       [5, 1, 2], [5, 2, 3], [5, 3, 4], [5, 4, 1]])"
| "v1_3_get_geometry Dodecahedron =
     ([(1, 1, 1), (1, -1, 1), (-1, -1, 1), (-1, 1, 1),
       (1, 1, -1), (1, -1, -1), (-1, -1, -1), (-1, 1, -1),
       (0, 1.618, 0.618), (0, -1.618, 0.618),
       (0, -1.618, -0.618), (0, 1.618, -0.618),
       (0.618, 0, 1.618), (-0.618, 0, 1.618),
       (-0.618, 0, -1.618), (0.618, 0, -1.618),
       (1.618, 0.618, 0), (-1.618, 0.618, 0),
       (-1.618, -0.618, 0), (1.618, -0.618, 0)],
      [],
      [[8, 11, 4, 16, 0], [8, 11, 7, 17, 3], [9, 10, 5, 19, 1],
       [9, 10, 6, 18, 2], [12, 13, 3, 8, 0], [12, 13, 2, 9, 1],
       [15, 14, 7, 11, 4], [15, 14, 6, 10, 5], [16, 19, 1, 12, 0],
       [16, 19, 5, 15, 4], [17, 18, 2, 13, 3], [17, 18, 6, 14, 7]])"
| "v1_3_get_geometry Icosahedron =
     ([(0, 1, 1.618), (0, -1, 1.618), (0, 1, -1.618), (0, -1, -1.618),
       (1.618, 0, 1), (1.618, 0, -1), (-1.618, 0, 1), (-1.618, 0, -1),
       (1, 1.618, 0), (-1, 1.618, 0), (1, -1.618, 0), (-1, -1.618, 0)],
      [],
      [[0, 1, 4], [0, 1, 6], [2, 3, 5], [2, 3, 7],
       [4, 5, 8], [4, 5, 10], [6, 7, 9], [6, 7, 11],
       [8, 9, 0], [8, 9, 2], [10, 11, 1], [10, 11, 3],
       [0, 4, 8], [1, 4, 10], [1, 6, 11], [0, 6, 9],
       [2, 5, 8], [3, 5, 10], [3, 7, 11], [2, 7, 9]])"

subsection \<open>The geometry function of v1.1.py\<close>

text \<open>
  \<^verbatim>\<open>generate_geometry(name)\<close> of \<^verbatim>\<open>old versions/v1.1.py\<close>: the three lists start empty, a
  \<^verbatim>\<open>match\<close> on the name fills the vertices and the faces, and a name that matches no case
  leaves them empty.
\<close>

definition v1_1_generate_geometry :: "string \<Rightarrow> geometry" where
  "v1_1_generate_geometry name =
     (if name = ''TETRAHEDRON'' then
        ([(0.943, 0, -0.333), (-0.471, -0.816, -0.333), (-0.471, 0.816, -0.333), (0, 0, 1)],
         [],
         [[0, 1, 2], [0, 1, 3], [0, 2, 3], [1, 2, 3]])
      else if name = ''CUBE'' then
        ([(1, 1, 1), (1, -1, 1), (-1, -1, 1), (-1, 1, 1),
          (1, 1, -1), (1, -1, -1), (-1, -1, -1), (-1, 1, -1)],
         [],
         [[0, 1, 2, 3], [0, 1, 5, 4], [1, 2, 6, 5],
          [2, 3, 7, 6], [3, 0, 4, 7], [4, 5, 6, 7]])
      else if name = ''OCTAHEDRON'' then
        ([(0, 0, -1), (-1, 0, 0), (0, -1, 0),
          (1, 0, 0), (0, 1, 0), (0, 0, 1)],
         [],
         [[0, 1, 2], [0, 2, 3], [0, 3, 4], [0, 4, 1],
          [5, 1, 2], [5, 2, 3], [5, 3, 4], [5, 4, 1]])
      else if name = ''DODECAHEDRON'' then
        ([(1, 1, 1), (1, -1, 1), (-1, -1, 1), (-1, 1, 1),
          (1, 1, -1), (1, -1, -1), (-1, -1, -1), (-1, 1, -1),
          (0, 1.618, 0.618), (0, -1.618, 0.618),
          (0, -1.618, -0.618), (0, 1.618, -0.618),
          (0.618, 0, 1.618), (-0.618, 0, 1.618),
          (-0.618, 0, -1.618), (0.618, 0, -1.618),
          (1.618, 0.618, 0), (-1.618, 0.618, 0),
          (-1.618, -0.618, 0), (1.618, -0.618, 0)],
         [],
         [[8, 11, 4, 16, 0], [8, 11, 7, 17, 3], [9, 10, 5, 19, 1],
          [9, 10, 6, 18, 2], [12, 13, 3, 8, 0], [12, 13, 2, 9, 1],
          [15, 14, 7, 11, 4], [15, 14, 6, 10, 5], [16, 19, 1, 12, 0],
          [16, 19, 5, 15, 4], [17, 18, 2, 13, 3], [17, 18, 6, 14, 7]])
      else if name = ''ICOSAHEDRON'' then
        ([(0, 1, 1.618), (0, -1, 1.618), (0, 1, -1.618), (0, -1, -1.618),
          (1.618, 0, 1), (1.618, 0, -1), (-1.618, 0, 1), (-1.618, 0, -1),
          (1, 1.618, 0), (-1, 1.618, 0), (1, -1.618, 0), (-1, -1.618, 0)],
         [],
         [[0, 1, 4], [0, 1, 6], [2, 3, 5], [2, 3, 7],
          [4, 5, 8], [4, 5, 10], [6, 7, 9], [6, 7, 11],
          [8, 9, 0], [8, 9, 2], [10, 11, 1], [10, 11, 3],
          [0, 4, 8], [1, 4, 10], [1, 6, 11], [0, 6, 9],
          [2, 5, 8], [3, 5, 10], [3, 7, 11], [2, 7, 9]])
      else ([], [], []))"

subsection \<open>Dispatch on the instance\<close>

text \<open>
  \<^verbatim>\<open>solid.get_geometry()\<close>: the base class raises \<^verbatim>\<open>NotImplementedError\<close>, each subclass
  returns its table.
\<close>

fun solid_get_geometry :: "solid \<Rightarrow> py_error + geometry" where
  "solid_get_geometry PlatonicSolid = Inl NotImplementedError"
| "solid_get_geometry (Instance k) = Inr (get_geometry k)"

fun v1_3_solid_get_geometry :: "solid \<Rightarrow> py_error + geometry" where
  "v1_3_solid_get_geometry PlatonicSolid = Inl NotImplementedError"
| "v1_3_solid_get_geometry (Instance k) = Inr (v1_3_get_geometry k)"

text \<open>The dictionary \<^verbatim>\<open>solid_classes\<close>, in its insertion order.\<close>

definition solid_classes_items :: "(string \<times> SolidKind) list" where
  "solid_classes_items =
     [(''TETRAHEDRON'', Tetrahedron),
      (''CUBE'', Cube),
      (''OCTAHEDRON'', Octahedron),
      (''DODECAHEDRON'', Dodecahedron),
      (''ICOSAHEDRON'', Icosahedron)]"

definition solid_classes :: "string \<rightharpoonup> SolidKind" where
  "solid_classes = map_of solid_classes_items"

text \<open>\<^verbatim>\<open>solid_classes.get(key, default)\<close>: the class under the key, the default without one.\<close>

definition solid_classes_get :: "string \<Rightarrow> SolidKind \<Rightarrow> SolidKind" where
  "solid_classes_get key dflt = (case solid_classes key of Some c \<Rightarrow> c | None \<Rightarrow> dflt)"

section \<open>Properties\<close>

text \<open>
  \<^verbatim>\<open>PlatonicSolidProperties\<close>: the values an operator reads from
  \<^verbatim>\<open>context.scene.platonic_props\<close>.
\<close>

record platonic_props =
  props_shape_type :: string
  props_color :: rgba
  props_scale :: real
  props_clear_before_create :: bool

text \<open>
  The declarations of the numeric properties: \<^verbatim>\<open>default\<close>, \<^verbatim>\<open>min\<close> and \<^verbatim>\<open>max\<close> as
  written in the source. What the host does with a value outside the range is the host's
  behaviour and is not part of the model.
\<close>

record 'a float_prop =
  prop_default :: 'a
  prop_min :: real
  prop_max :: real

definition color_prop :: "rgba float_prop" where
  "color_prop = \<lparr>prop_default = (0.8, 0.8, 0.8, 1.0), prop_min = 0.0, prop_max = 1.0\<rparr>"

definition scale_prop :: "real float_prop" where
  "scale_prop = \<lparr>prop_default = 1.0, prop_min = 0.1, prop_max = 10.0\<rparr>"

text \<open>The identifiers of the enum \<^verbatim>\<open>shape_type\<close>: \<^verbatim>\<open>solid_classes.keys()\<close>.\<close>

definition shape_type_items :: "string list" where
  "shape_type_items = map fst solid_classes_items"

section \<open>The scene\<close>

text \<open>
  The part of the host's data the operators write. A mesh holds what
  \<^verbatim>\<open>from_pydata\<close> was given and its material slots (materials are referred to by name,
  so two meshes with the same material name share one material). An object holds its
  mesh, its location, its scale and its selection flag.

  The host gives a new mesh or object its name: the name asked for, or another one when
  that is empty, in use or too long. The names of meshes and objects are therefore not
  recorded. A material is kept under the name it was looked up and created with, which is
  the host's name for it unless the host had to shorten it; nothing below speaks of a
  material's name, only of the colour of the material in an object's slot. The precision
  in which the host stores a number is not modelled.
\<close>

record mesh =
  mesh_vertices :: "vec3 list"
  mesh_edges :: "edge list"
  mesh_faces :: "face list"
  mesh_materials :: "string list"

record scene_object =
  obj_data :: mesh
  obj_location :: vec3
  obj_scale :: vec3
  obj_selected :: bool

record bpy =
  bpy_materials :: "string \<rightharpoonup> rgba"
  bpy_objects :: "scene_object list"
  bpy_active :: "scene_object option"

datatype op_result = FINISHED

text \<open>
  \<^verbatim>\<open>SolidBuilder.create_mesh\<close>: a new mesh filled by \<^verbatim>\<open>from_pydata\<close>, with no material slot.
  The name only goes to the host.
\<close>

definition create_mesh :: "string \<Rightarrow> vec3 list \<Rightarrow> edge list \<Rightarrow> face list \<Rightarrow> mesh" where
  "create_mesh name vertices edges faces =
     \<lparr>mesh_vertices = vertices, mesh_edges = edges, mesh_faces = faces, mesh_materials = []\<rparr>"

text \<open>
  The assignment \<^verbatim>\<open>mat.diffuse_color = color\<close>. The host's \<^verbatim>\<open>diffuse_color\<close> holds four
  channels in [0, inf): a negative channel is stored as 0, every other channel as given.
\<close>

definition diffuse_color_assign :: "rgba \<Rightarrow> rgba" where
  "diffuse_color_assign color =
     (case color of (r, g, b, a) \<Rightarrow> (max 0 r, max 0 g, max 0 b, max 0 a))"

text \<open>
  \<^verbatim>\<open>SolidBuilder.create_material\<close>: the material of that name if there is one, a new one
  otherwise; in both cases \<^verbatim>\<open>color\<close> is then assigned to its \<^verbatim>\<open>diffuse_color\<close>.
\<close>

definition create_material :: "string \<Rightarrow> rgba \<Rightarrow> bpy \<Rightarrow> string \<times> bpy" where
  "create_material name color b =
     (case bpy_materials b name of
        Some old \<Rightarrow>
          (name, b\<lparr>bpy_materials := (bpy_materials b)(name \<mapsto> diffuse_color_assign color)\<rparr>)
      | None \<Rightarrow>
          (name, b\<lparr>bpy_materials := (bpy_materials b)(name \<mapsto> diffuse_color_assign color)\<rparr>))"

text \<open>
  \<^verbatim>\<open>bpy.data.objects.new(name, mesh)\<close>: a new object at the origin with unit scale, not
  selected (the host's defaults). The name only goes to the host.
\<close>

definition objects_new :: "string \<Rightarrow> mesh \<Rightarrow> scene_object" where
  "objects_new name m =
     \<lparr>obj_data = m, obj_location = (0, 0, 0), obj_scale = (1, 1, 1), obj_selected = False\<rparr>"

text \<open>
  The material goes into slot 0 when the mesh has slots, and is appended otherwise:
  \<^verbatim>\<open>if obj.data.materials: obj.data.materials[0] = mat else: obj.data.materials.append(mat)\<close>.
\<close>

definition set_material :: "string \<Rightarrow> scene_object \<Rightarrow> scene_object" where
  "set_material mat obj =
     (if mesh_materials (obj_data obj) \<noteq> []
      then obj\<lparr>obj_data := (obj_data obj)\<lparr>mesh_materials := (mesh_materials (obj_data obj))[0 := mat]\<rparr>\<rparr>
      else obj\<lparr>obj_data := (obj_data obj)\<lparr>mesh_materials := mesh_materials (obj_data obj) @ [mat]\<rparr>\<rparr>)"

text \<open>
  \<^verbatim>\<open>select_all(action='SELECT')\<close> followed by \<^verbatim>\<open>delete(use_global=False)\<close>: every object
  leaves the scene; the materials stay.
\<close>

definition clear_scene :: "bpy \<Rightarrow> bpy" where
  "clear_scene b = b\<lparr>bpy_objects := [], bpy_active := None\<rparr>"

subsection \<open>v2.py: the generate operator\<close>

text \<open>
  \<^verbatim>\<open>OBJECT_OT_generate_platonic.execute\<close>. The object is linked to the collection by
  reference, so the fields written after \<^verbatim>\<open>link\<close> are seen through the collection; the
  model appends the finished record.
\<close>

definition execute_generate_platonic :: "platonic_props \<Rightarrow> bpy \<Rightarrow> py_error + (op_result \<times> bpy)" where
  "execute_generate_platonic props b0 =
     (let b1 = (if props_clear_before_create props then clear_scene b0 else b0);
          solid_class = solid_classes_get (props_shape_type props) Tetrahedron;
          solid = Instance solid_class
      in case solid_get_geometry solid of
           Inl e \<Rightarrow> Inl e
         | Inr (vertices, edges, faces) \<Rightarrow>
             (let m = create_mesh (props_shape_type props) vertices edges faces;
                  obj1 = objects_new (props_shape_type props) m;
                  obj2 = obj1\<lparr>obj_scale := (props_scale props, props_scale props, props_scale props)\<rparr>;
                  (mat, b2) = create_material (props_shape_type props @ ''_Material'') (props_color props) b1;
                  obj3 = set_material mat obj2;
                  obj4 = obj3\<lparr>obj_selected := True\<rparr>;
                  b3 = b2\<lparr>bpy_objects := bpy_objects b2 @ [obj4]\<rparr>
              in Inr (FINISHED, b3\<lparr>bpy_active := Some obj4\<rparr>)))"

subsection \<open>v1.3.py: the builder and its two operators\<close>

text \<open>\<^verbatim>\<open>SolidBuilder.add_object(name, solid, color, scale, location)\<close>.\<close>

definition v1_3_add_object ::
  "string \<Rightarrow> solid \<Rightarrow> rgba \<Rightarrow> real \<Rightarrow> vec3 \<Rightarrow> bpy \<Rightarrow> py_error + (scene_object \<times> bpy)" where
  "v1_3_add_object name solid color s location b0 =
     (case v1_3_solid_get_geometry solid of
        Inl e \<Rightarrow> Inl e
      | Inr (vertices, edges, faces) \<Rightarrow>
          (let m = create_mesh name vertices edges faces;
               obj1 = objects_new name m;
               obj2 = obj1\<lparr>obj_location := location\<rparr>;
               obj3 = obj2\<lparr>obj_scale := (s, s, s)\<rparr>;
               (mat, b1) = create_material (name @ ''_Material'') color b0;
               obj4 = set_material mat obj3;
               obj5 = obj4\<lparr>obj_selected := True\<rparr>
           in Inr (obj5, b1\<lparr>bpy_objects := bpy_objects b1 @ [obj5]\<rparr>)))"

text \<open>\<^verbatim>\<open>OBJECT_OT_generate_platonic.execute\<close> of v1.3.py.\<close>

definition v1_3_execute_generate_platonic ::
  "platonic_props \<Rightarrow> bpy \<Rightarrow> py_error + (op_result \<times> bpy)" where
  "v1_3_execute_generate_platonic props b0 =
     (let b1 = (if props_clear_before_create props then clear_scene b0 else b0);
          solid_class = solid_classes_get (props_shape_type props) Tetrahedron;
          solid = Instance solid_class
      in case v1_3_add_object (props_shape_type props) solid (props_color props)
                (props_scale props) (0, 0, 0) b1 of
           Inl e \<Rightarrow> Inl e
         | Inr (obj, b2) \<Rightarrow> Inr (FINISHED, b2))"

text \<open>\<^verbatim>\<open>OBJECT_OT_generate_template1.execute\<close>: the table and the loop over it.\<close>

definition template_data :: "(string \<times> solid \<times> vec3) list" where
  "template_data =
     [(''Tetrahedron'', Instance Tetrahedron, (0, 0, 0)),
      (''Cube'', Instance Cube, (4, 0, 0)),
      (''Octahedron'', Instance Octahedron, (-4, 0, 0)),
      (''Dodecahedron'', Instance Dodecahedron, (8, 0, 0)),
      (''Icosahedron'', Instance Icosahedron, (-8, 0, 0))]"

fun add_objects :: "(string \<times> solid \<times> vec3) list \<Rightarrow> rgba \<Rightarrow> real \<Rightarrow> bpy \<Rightarrow> py_error + bpy" where
  "add_objects [] color s b = Inr b"
| "add_objects ((name, solid, location) # rest) color s b =
     (case v1_3_add_object name solid color s location b of
        Inl e \<Rightarrow> Inl e
      | Inr (obj, b') \<Rightarrow> add_objects rest color s b')"

definition v1_3_execute_generate_template1 ::
  "platonic_props \<Rightarrow> bpy \<Rightarrow> py_error + (op_result \<times> bpy)" where
  "v1_3_execute_generate_template1 props b0 =
     (let b1 = (if props_clear_before_create props then clear_scene b0 else b0)
      in case add_objects template_data (props_color props) (props_scale props) b1 of
           Inl e \<Rightarrow> Inl e
         | Inr b2 \<Rightarrow> Inr (FINISHED, b2))"

section \<open>Notions used to state the properties\<close>

text \<open>The geometry a mesh was built from.\<close>

definition mesh_geometry :: "mesh \<Rightarrow> geometry" where
  "mesh_geometry m = (mesh_vertices m, mesh_edges m, mesh_faces m)"

text \<open>The coordinates of a vertex.\<close>

definition vx :: "vec3 \<Rightarrow> real" where
  "vx v = fst v"

definition vy :: "vec3 \<Rightarrow> real" where
  "vy v = fst (snd v)"

definition vz :: "vec3 \<Rightarrow> real" where
  "vz v = snd (snd v)"

text \<open>
  A face is valid for \<open>n\<close> vertices when each of its indices is in range and it has at
  least three different indices.
\<close>

definition face_ok :: "nat \<Rightarrow> face \<Rightarrow> bool" where
  "face_ok n f = (list_all (\<lambda>i. 0 \<le> i \<and> i < int n) f \<and> 3 \<le> length (remdups f))"

text \<open>
  The edges of a face are the pairs of indices adjacent in its cyclic traversal; an edge
  is undirected, so \<open>(a, b)\<close> and \<open>(b, a)\<close> are the same edge.
\<close>

definition face_edges :: "face \<Rightarrow> edge list" where
  "face_edges f = zip f (rotate1 f)"

definition same_edge :: "edge \<Rightarrow> edge \<Rightarrow> bool" where
  "same_edge e d = (e = d \<or> e = (snd d, fst d))"

definition faces_with_edge :: "face list \<Rightarrow> edge \<Rightarrow> face list" where
  "faces_with_edge fs e = filter (\<lambda>f. list_ex (same_edge e) (face_edges f)) fs"

definition closed_faces :: "face list \<Rightarrow> bool" where
  "closed_faces fs =
     list_all (\<lambda>f. list_all (\<lambda>e. length (faces_with_edge fs e) = 2) (face_edges f)) fs"

definition norm_edge :: "edge \<Rightarrow> edge" where
  "norm_edge e = (min (fst e) (snd e), max (fst e) (snd e))"

definition undirected_edges :: "face list \<Rightarrow> edge list" where
  "undirected_edges fs = remdups (map norm_edge (concat (map face_edges fs)))"

text \<open>
  What the specification asks of the generator: every coordinate multiplied by the scale,
  compared within a tolerance.
\<close>

definition scaled_vertices :: "real \<Rightarrow> vec3 list \<Rightarrow> vec3 list" where
  "scaled_vertices s vs = map (\<lambda>v. (s * vx v, s * vy v, s * vz v)) vs"

definition close_vertex :: "real \<Rightarrow> vec3 \<Rightarrow> vec3 \<Rightarrow> bool" where
  "close_vertex tol v w =
     (\<bar>vx v - vx w\<bar> \<le> tol \<and> \<bar>vy v - vy w\<bar> \<le> tol \<and> \<bar>vz v - vz w\<bar> \<le> tol)"

definition close_vertices :: "real \<Rightarrow> vec3 list \<Rightarrow> vec3 list \<Rightarrow> bool" where
  "close_vertices tol vs ws = (length vs = length ws \<and> list_all2 (close_vertex tol) vs ws)"

text \<open>A colour within the range declared for the property \<^verbatim>\<open>color\<close>.\<close>

definition color_in_range :: "rgba \<Rightarrow> bool" where
  "color_in_range color =
     (case color of (r, g, b, a) \<Rightarrow>
        list_all (\<lambda>x. prop_min color_prop \<le> x \<and> x \<le> prop_max color_prop) [r, g, b, a])"

text \<open>A scene with nothing in it.\<close>

definition empty_bpy :: bpy where
  "empty_bpy = \<lparr>bpy_materials = Map.empty, bpy_objects = [], bpy_active = None\<rparr>"

text \<open>
  The object both builders finish with, for the geometry table \<open>geo\<close> of the version at
  hand: its mesh filled from the table of \<open>k\<close> and carrying one material slot, for the
  material asked for as \<open>name_Material\<close>, placed at \<open>location\<close>, scaled by \<open>s\<close> on each
  axis, selected.
\<close>

definition built_object ::
  "(SolidKind \<Rightarrow> geometry) \<Rightarrow> string \<Rightarrow> SolidKind \<Rightarrow> real \<Rightarrow> vec3 \<Rightarrow> scene_object" where
  "built_object geo name k s location =
     \<lparr>obj_data = \<lparr>mesh_vertices = geo_vertices (geo k),
                  mesh_edges = geo_edges (geo k),
                  mesh_faces = geo_faces (geo k),
                  mesh_materials = [name @ ''_Material'']\<rparr>,
      obj_location = location, obj_scale = (s, s, s), obj_selected = True\<rparr>"

section \<open>The catalog\<close>

text \<open>
  C1. For every solid kind, the geometry returned by \<^verbatim>\<open>get_geometry\<close> has the fixed
  vertex and face counts: Tetrahedron 4 and 4, Cube 8 and 6, Octahedron 6 and 8,
  Dodecahedron 20 and 12, Icosahedron 12 and 20.
\<close>

theorem get_geometry_counts:
  "(length (geo_vertices (get_geometry k)), length (geo_faces (get_geometry k))) =
     (case k of
        Tetrahedron \<Rightarrow> (4, 4)
      | Cube \<Rightarrow> (8, 6)
      | Octahedron \<Rightarrow> (6, 8)
      | Dodecahedron \<Rightarrow> (20, 12)
      | Icosahedron \<Rightarrow> (12, 20))"
  by (cases k) (simp_all add: geo_vertices_def geo_faces_def)

subsection \<open>Valid faces\<close>

lemma get_geometry_face_ok:
  "list_all (face_ok (length (geo_vertices (get_geometry k)))) (geo_faces (get_geometry k))"
  by (cases k) (simp_all add: geo_vertices_def geo_faces_def face_ok_def)

text \<open>
  C2. For every solid kind and every face of its face list, every vertex index of the
  face is non-negative and strictly less than the number of vertices, and the face has at
  least three different indices.
\<close>

theorem get_geometry_faces_valid:
  "\<forall>f \<in> set (geo_faces (get_geometry k)).
     (\<forall>i \<in> set f. 0 \<le> i \<and> i < int (length (geo_vertices (get_geometry k)))) \<and>
     3 \<le> card (set f)"
  using get_geometry_face_ok [of k] by (simp add: list_all_iff face_ok_def card_set)

theorem get_geometry_faces_valid_witness:
  "[8, 11, 4, 16, 0] \<in> set (geo_faces (get_geometry Dodecahedron)) \<and>
   list_all (\<lambda>i. 0 \<le> i \<and> i < int (length (geo_vertices (get_geometry Dodecahedron))))
     [8, 11, 4, 16, 0] \<and>
   3 \<le> card (set [8, 11, 4, 16, 0 :: int])"
proof -
  have mem: "[8, 11, 4, 16, 0] \<in> set (geo_faces (get_geometry Dodecahedron))"
    by (simp add: geo_faces_def)
  from get_geometry_faces_valid [of Dodecahedron] mem
  have "(\<forall>i \<in> set [8, 11, 4, 16, 0 :: int].
           0 \<le> i \<and> i < int (length (geo_vertices (get_geometry Dodecahedron)))) \<and>
        3 \<le> card (set [8, 11, 4, 16, 0 :: int])"
    by (rule bspec)
  with mem show ?thesis unfolding list_all_iff by (intro conjI) (elim conjE, assumption)+
qed

subsection \<open>The cube\<close>

lemma cube_geometry_v2:
  "set (geo_vertices (get_geometry Cube)) = {1, -1} \<times> {1, -1} \<times> {1, -1} \<and>
   distinct (geo_vertices (get_geometry Cube)) \<and>
   length (geo_vertices (get_geometry Cube)) = 8 \<and>
   length (geo_faces (get_geometry Cube)) = 6 \<and>
   (\<forall>f \<in> set (geo_faces (get_geometry Cube)).
      length f = 4 \<and> distinct f \<and>
      (\<exists>v \<in> {1, -1}.
          (\<forall>i \<in> set f. vx (geo_vertices (get_geometry Cube) ! nat i) = v)
        \<or> (\<forall>i \<in> set f. vy (geo_vertices (get_geometry Cube) ! nat i) = v)
        \<or> (\<forall>i \<in> set f. vz (geo_vertices (get_geometry Cube) ! nat i) = v)))"
proof -
  have verts: "set (geo_vertices (get_geometry Cube)) = {1, -1} \<times> {1, -1} \<times> {1, -1}"
    by (auto simp add: geo_vertices_def)
  have rest: "distinct (geo_vertices (get_geometry Cube)) \<and>
      length (geo_vertices (get_geometry Cube)) = 8 \<and>
      length (geo_faces (get_geometry Cube)) = 6"
    by (simp add: geo_vertices_def geo_faces_def)
  have planes: "(\<forall>f \<in> set (geo_faces (get_geometry Cube)).
      length f = 4 \<and> distinct f \<and>
      (\<exists>v \<in> {1, -1}.
          (\<forall>i \<in> set f. vx (geo_vertices (get_geometry Cube) ! nat i) = v)
        \<or> (\<forall>i \<in> set f. vy (geo_vertices (get_geometry Cube) ! nat i) = v)
        \<or> (\<forall>i \<in> set f. vz (geo_vertices (get_geometry Cube) ! nat i) = v)))"
    by (simp add: geo_vertices_def geo_faces_def vx_def vy_def vz_def)
  from verts rest planes show ?thesis by (intro conjI) simp_all
qed

lemma cube_geometry_v1_3:
  "set (geo_vertices (v1_3_get_geometry Cube)) = {1.5, -1.5} \<times> {1.5, -1.5} \<times> {1.5, -1.5} \<and>
   distinct (geo_vertices (v1_3_get_geometry Cube)) \<and>
   length (geo_vertices (v1_3_get_geometry Cube)) = 8 \<and>
   length (geo_faces (v1_3_get_geometry Cube)) = 6 \<and>
   (\<forall>f \<in> set (geo_faces (v1_3_get_geometry Cube)).
      length f = 4 \<and> distinct f \<and>
      (\<exists>v \<in> {1.5, -1.5}.
          (\<forall>i \<in> set f. vx (geo_vertices (v1_3_get_geometry Cube) ! nat i) = v)
        \<or> (\<forall>i \<in> set f. vy (geo_vertices (v1_3_get_geometry Cube) ! nat i) = v)
        \<or> (\<forall>i \<in> set f. vz (geo_vertices (v1_3_get_geometry Cube) ! nat i) = v)))"
proof -
  have verts: "set (geo_vertices (v1_3_get_geometry Cube)) = {1.5, -1.5} \<times> {1.5, -1.5} \<times> {1.5, -1.5}"
    by (auto simp add: geo_vertices_def)
  have rest: "distinct (geo_vertices (v1_3_get_geometry Cube)) \<and>
      length (geo_vertices (v1_3_get_geometry Cube)) = 8 \<and>
      length (geo_faces (v1_3_get_geometry Cube)) = 6"
    by (simp add: geo_vertices_def geo_faces_def)
  have planes: "(\<forall>f \<in> set (geo_faces (v1_3_get_geometry Cube)).
      length f = 4 \<and> distinct f \<and>
      (\<exists>v \<in> {1.5, -1.5}.
          (\<forall>i \<in> set f. vx (geo_vertices (v1_3_get_geometry Cube) ! nat i) = v)
        \<or> (\<forall>i \<in> set f. vy (geo_vertices (v1_3_get_geometry Cube) ! nat i) = v)
        \<or> (\<forall>i \<in> set f. vz (geo_vertices (v1_3_get_geometry Cube) ! nat i) = v)))"
    by (simp add: geo_vertices_def geo_faces_def vx_def vy_def vz_def)
  from verts rest planes show ?thesis by (intro conjI) simp_all
qed

text \<open>
  The cube of v1.3.py has the same six faces as the cube of v2.py; its vertices are those
  of v2.py multiplied by 1.5.
\<close>

lemma v1_3_cube_geometry:
  "geo_vertices (v1_3_get_geometry Cube) = scaled_vertices 1.5 (geo_vertices (get_geometry Cube)) \<and>
   geo_faces (v1_3_get_geometry Cube) = geo_faces (get_geometry Cube)"
  by (simp add: geo_vertices_def geo_faces_def scaled_vertices_def vx_def vy_def vz_def)

text \<open>
  C8, as the code has it. The cube has exactly the 8 vertices (\<plusminus>a, \<plusminus>a, \<plusminus>a), every sign
  combination once, with a = 1 in v2.py and a = 1.5 in v1.3.py, and 6 faces of four
  different indices each; the four vertices of a face agree, at a or at -a, in one of the
  three coordinates.
\<close>

theorem cube_geometry:
  "(set (geo_vertices (get_geometry Cube)) = {1, -1} \<times> {1, -1} \<times> {1, -1} \<and>
   distinct (geo_vertices (get_geometry Cube)) \<and>
   length (geo_vertices (get_geometry Cube)) = 8 \<and>
   length (geo_faces (get_geometry Cube)) = 6 \<and>
   (\<forall>f \<in> set (geo_faces (get_geometry Cube)).
      length f = 4 \<and> distinct f \<and>
      (\<exists>v \<in> {1, -1}.
          (\<forall>i \<in> set f. vx (geo_vertices (get_geometry Cube) ! nat i) = v)
        \<or> (\<forall>i \<in> set f. vy (geo_vertices (get_geometry Cube) ! nat i) = v)
        \<or> (\<forall>i \<in> set f. vz (geo_vertices (get_geometry Cube) ! nat i) = v)))) \<and>
   (set (geo_vertices (v1_3_get_geometry Cube)) = {1.5, -1.5} \<times> {1.5, -1.5} \<times> {1.5, -1.5} \<and>
   distinct (geo_vertices (v1_3_get_geometry Cube)) \<and>
   length (geo_vertices (v1_3_get_geometry Cube)) = 8 \<and>
   length (geo_faces (v1_3_get_geometry Cube)) = 6 \<and>
   (\<forall>f \<in> set (geo_faces (v1_3_get_geometry Cube)).
      length f = 4 \<and> distinct f \<and>
      (\<exists>v \<in> {1.5, -1.5}.
          (\<forall>i \<in> set f. vx (geo_vertices (v1_3_get_geometry Cube) ! nat i) = v)
        \<or> (\<forall>i \<in> set f. vy (geo_vertices (v1_3_get_geometry Cube) ! nat i) = v)
        \<or> (\<forall>i \<in> set f. vz (geo_vertices (v1_3_get_geometry Cube) ! nat i) = v))))"
  using cube_geometry_v2 cube_geometry_v1_3 by (rule conjI)

theorem cube_geometry_witness:
  "[0, 4, 5, 1] \<in> set (geo_faces (v1_3_get_geometry Cube)) \<and>
   length [0, 4, 5, 1 :: int] = 4 \<and> distinct [0, 4, 5, 1 :: int] \<and>
   (\<exists>v \<in> {1.5, -1.5}.
       (\<forall>i \<in> set [0, 4, 5, 1]. vx (geo_vertices (v1_3_get_geometry Cube) ! nat i) = v)
     \<or> (\<forall>i \<in> set [0, 4, 5, 1]. vy (geo_vertices (v1_3_get_geometry Cube) ! nat i) = v)
     \<or> (\<forall>i \<in> set [0, 4, 5, 1]. vz (geo_vertices (v1_3_get_geometry Cube) ! nat i) = v))"
proof -
  have mem: "[0, 4, 5, 1] \<in> set (geo_faces (v1_3_get_geometry Cube))"
    by (simp add: geo_faces_def)
  have "(\<forall>f \<in> set (geo_faces (v1_3_get_geometry Cube)).
      length f = 4 \<and> distinct f \<and>
      (\<exists>v \<in> {1.5, -1.5}.
          (\<forall>i \<in> set f. vx (geo_vertices (v1_3_get_geometry Cube) ! nat i) = v)
        \<or> (\<forall>i \<in> set f. vy (geo_vertices (v1_3_get_geometry Cube) ! nat i) = v)
        \<or> (\<forall>i \<in> set f. vz (geo_vertices (v1_3_get_geometry Cube) ! nat i) = v)))"
    using cube_geometry by (elim conjE)
  from this mem have "length [0, 4, 5, 1 :: int] = 4 \<and> distinct [0, 4, 5, 1 :: int] \<and>
      (\<exists>v \<in> {1.5, -1.5}.
       (\<forall>i \<in> set [0, 4, 5, 1]. vx (geo_vertices (v1_3_get_geometry Cube) ! nat i) = v)
     \<or> (\<forall>i \<in> set [0, 4, 5, 1]. vy (geo_vertices (v1_3_get_geometry Cube) ! nat i) = v)
     \<or> (\<forall>i \<in> set [0, 4, 5, 1]. vz (geo_vertices (v1_3_get_geometry Cube) ! nat i) = v))"
    by (rule bspec)
  with mem show ?thesis by (rule conjI)
qed

text \<open>
  The vertices of the cube of v1.3.py are not the sign combinations of 1: (1.5, 1.5, 1.5)
  is one of them.
\<close>

theorem cube_unit_vertices_counterexample:
  "(1.5, 1.5, 1.5) \<in> set (geo_vertices (v1_3_get_geometry Cube)) \<and>
   (1.5, 1.5, 1.5) \<notin> ({1, -1} \<times> {1, -1} \<times> {1, -1} :: vec3 set) \<and>
   set (geo_vertices (v1_3_get_geometry Cube)) \<noteq> {1, -1} \<times> {1, -1} \<times> {1, -1}"
proof -
  have mem: "(1.5, 1.5, 1.5) \<in> set (geo_vertices (v1_3_get_geometry Cube))"
    by (simp add: geo_vertices_def)
  have out: "(1.5, 1.5, 1.5) \<notin> ({1, -1} \<times> {1, -1} \<times> {1, -1} :: vec3 set)"
    by simp
  from mem out
  have "set (geo_vertices (v1_3_get_geometry Cube)) \<noteq> {1, -1} \<times> {1, -1} \<times> {1, -1}"
    by (metis)
  with mem out show ?thesis by (intro conjI)
qed

subsection \<open>The tetrahedron\<close>

lemma three_of_four:
  "{s. s \<subseteq> {0, 1, 2, 3 :: int} \<and> card s = 3} = {{0, 1, 2}, {0, 1, 3}, {0, 2, 3}, {1, 2, 3}}"
proof -
  have "{s. s \<subseteq> {0, 1, 2, 3 :: int} \<and> card s = 3} = {s \<in> Pow {0, 1, 2, 3 :: int}. card s = 3}"
    by auto
  also have "\<dots> = {{0, 1, 2}, {0, 1, 3}, {0, 2, 3}, {1, 2, 3}}"
    by (auto simp add: Pow_insert)
  finally show ?thesis .
qed

text \<open>
  C9. The tetrahedron has 4 vertices and 4 faces of three different indices each; the
  four faces leave out the vertices 3, 2, 1 and 0, one each, so no two faces have the same
  index set, and the index sets of the faces are precisely the 3-element subsets of
  {0, 1, 2, 3}.
\<close>

theorem tetrahedron_faces:
  "length (geo_vertices (get_geometry Tetrahedron)) = 4 \<and>
   length (geo_faces (get_geometry Tetrahedron)) = 4 \<and>
   (\<forall>f \<in> set (geo_faces (get_geometry Tetrahedron)). length f = 3 \<and> distinct f) \<and>
   map (\<lambda>f. {0, 1, 2, 3} - set f) (geo_faces (get_geometry Tetrahedron)) = [{3}, {2}, {1}, {0}] \<and>
   distinct (map set (geo_faces (get_geometry Tetrahedron))) \<and>
   set ` set (geo_faces (get_geometry Tetrahedron)) = {s. s \<subseteq> {0, 1, 2, 3} \<and> card s = 3}"
proof (intro conjI)
  show "length (geo_vertices (get_geometry Tetrahedron)) = 4"
    by (simp add: geo_vertices_def)
  show "length (geo_faces (get_geometry Tetrahedron)) = 4"
    by (simp add: geo_faces_def)
  show "\<forall>f \<in> set (geo_faces (get_geometry Tetrahedron)). length f = 3 \<and> distinct f"
    by (simp add: geo_faces_def)
  show omitted: "map (\<lambda>f. {0, 1, 2, 3} - set f) (geo_faces (get_geometry Tetrahedron)) =
      [{3}, {2}, {1}, {0}]"
    by (auto simp add: geo_faces_def)
  have "distinct (map (\<lambda>s. {0, 1, 2, 3 :: int} - s) (map set (geo_faces (get_geometry Tetrahedron))))"
    using omitted by (simp add: comp_def)
  then show "distinct (map set (geo_faces (get_geometry Tetrahedron)))"
    by (simp only: distinct_map)
  show "set ` set (geo_faces (get_geometry Tetrahedron)) =
      {s. s \<subseteq> {0, 1, 2, 3} \<and> card s = 3}"
    unfolding three_of_four by (simp add: geo_faces_def)
qed

theorem tetrahedron_faces_witness:
  "[0, 2, 3] \<in> set (geo_faces (get_geometry Tetrahedron)) \<and>
   length [0, 2, 3 :: int] = 3 \<and> distinct [0, 2, 3 :: int]"
proof -
  have mem: "[0, 2, 3] \<in> set (geo_faces (get_geometry Tetrahedron))"
    by (simp add: geo_faces_def)
  have "\<forall>f \<in> set (geo_faces (get_geometry Tetrahedron)). length f = 3 \<and> distinct f"
    using tetrahedron_faces by (rule_tac conjunct1, rule_tac conjunct2, rule_tac conjunct2)
  from this mem have "length [0, 2, 3 :: int] = 3 \<and> distinct [0, 2, 3 :: int]"
    by (rule bspec)
  with mem show ?thesis by (rule conjI)
qed

subsection \<open>Closed surfaces\<close>

lemma closed_faces_get_geometry: "closed_faces (geo_faces (get_geometry k))"
  by (cases k)
    (simp_all add: geo_faces_def closed_faces_def faces_with_edge_def face_edges_def same_edge_def)

lemma distinct_faces_get_geometry: "distinct (geo_faces (get_geometry k))"
  by (cases k) (simp_all add: geo_faces_def)

lemma edge_count_get_geometry:
  "length (undirected_edges (geo_faces (get_geometry k))) =
     (case k of Tetrahedron \<Rightarrow> 6 | Cube \<Rightarrow> 12 | Octahedron \<Rightarrow> 12
      | Dodecahedron \<Rightarrow> 30 | Icosahedron \<Rightarrow> 30)"
  by (cases k)
    (simp_all add: geo_faces_def undirected_edges_def face_edges_def norm_edge_def)

text \<open>
  C10. For every solid kind, every edge of every face (a pair of indices adjacent in the
  face's cyclic order, taken undirected) lies in exactly two faces of the face list, the
  faces are pairwise different, and the numbers of vertices, undirected edges and faces
  satisfy V - E + F = 2.
\<close>

theorem get_geometry_closed_surface:
  "(\<forall>f \<in> set (geo_faces (get_geometry k)). \<forall>e \<in> set (face_edges f).
      length (faces_with_edge (geo_faces (get_geometry k)) e) = 2) \<and>
   distinct (geo_faces (get_geometry k)) \<and>
   int (length (geo_vertices (get_geometry k)))
     - int (length (undirected_edges (geo_faces (get_geometry k))))
     + int (length (geo_faces (get_geometry k))) = 2"
proof -
  have two: "\<forall>f \<in> set (geo_faces (get_geometry k)). \<forall>e \<in> set (face_edges f).
      length (faces_with_edge (geo_faces (get_geometry k)) e) = 2"
    using closed_faces_get_geometry [of k] by (simp add: closed_faces_def list_all_iff)
  have euler: "int (length (geo_vertices (get_geometry k)))
     - int (length (undirected_edges (geo_faces (get_geometry k))))
     + int (length (geo_faces (get_geometry k))) = 2"
    unfolding edge_count_get_geometry
    by (cases k) (simp_all add: geo_vertices_def geo_faces_def)
  from two distinct_faces_get_geometry [of k] euler show ?thesis by (intro conjI)
qed

theorem get_geometry_closed_surface_witness:
  "[16, 19, 1, 12, 0] \<in> set (geo_faces (get_geometry Dodecahedron)) \<and>
   (19, 1) \<in> set (face_edges [16, 19, 1, 12, 0]) \<and>
   length (faces_with_edge (geo_faces (get_geometry Dodecahedron)) (19, 1)) = 2"
proof -
  have mem: "[16, 19, 1, 12, 0] \<in> set (geo_faces (get_geometry Dodecahedron))"
    by (simp add: geo_faces_def)
  have edge: "(19, 1) \<in> set (face_edges [16, 19, 1, 12, 0])"
    by (simp add: face_edges_def)
  have "\<forall>f \<in> set (geo_faces (get_geometry Dodecahedron)). \<forall>e \<in> set (face_edges f).
      length (faces_with_edge (geo_faces (get_geometry Dodecahedron)) e) = 2"
    using get_geometry_closed_surface [of Dodecahedron] by (rule conjunct1)
  from this mem have "\<forall>e \<in> set (face_edges [16, 19, 1, 12, 0]).
      length (faces_with_edge (geo_faces (get_geometry Dodecahedron)) e) = 2"
    by (rule bspec)
  from this edge have "length (faces_with_edge (geo_faces (get_geometry Dodecahedron)) (19, 1)) = 2"
    by (rule bspec)
  with mem edge show ?thesis by (intro conjI)
qed

section \<open>The builders\<close>

subsection \<open>What the builders compute\<close>

lemma create_material_eq:
  "create_material name color b =
     (name, b\<lparr>bpy_materials := (bpy_materials b)(name \<mapsto> diffuse_color_assign color)\<rparr>)"
  by (simp add: create_material_def split: option.split)

lemma v1_3_add_object_Instance:
  "v1_3_add_object name (Instance k) color s location b =
     Inr (built_object v1_3_get_geometry name k s location,
          b\<lparr>bpy_materials := (bpy_materials b)(name @ ''_Material'' \<mapsto> diffuse_color_assign color),
            bpy_objects := bpy_objects b @ [built_object v1_3_get_geometry name k s location]\<rparr>)"
  by (simp add: v1_3_add_object_def create_material_eq create_mesh_def objects_new_def
      set_material_def geo_vertices_def geo_edges_def geo_faces_def built_object_def Let_def
      split: prod.split)

lemma v1_3_add_object_base:
  "v1_3_add_object name PlatonicSolid color s location b = Inl NotImplementedError"
  by (simp add: v1_3_add_object_def)

lemma execute_generate_platonic_eq:
  "execute_generate_platonic props b =
     Inr (FINISHED,
          \<lparr>bpy_materials =
             (bpy_materials b)(props_shape_type props @ ''_Material'' \<mapsto>
                diffuse_color_assign (props_color props)),
           bpy_objects = (if props_clear_before_create props then [] else bpy_objects b) @
             [built_object get_geometry (props_shape_type props)
                (case solid_classes (props_shape_type props) of Some c \<Rightarrow> c | None \<Rightarrow> Tetrahedron)
                (props_scale props) (0, 0, 0)],
           bpy_active = Some (built_object get_geometry (props_shape_type props)
                (case solid_classes (props_shape_type props) of Some c \<Rightarrow> c | None \<Rightarrow> Tetrahedron)
                (props_scale props) (0, 0, 0))\<rparr>)"
  by (simp add: execute_generate_platonic_def solid_classes_get_def create_material_eq
      create_mesh_def objects_new_def set_material_def geo_vertices_def geo_edges_def
      geo_faces_def clear_scene_def built_object_def Let_def split: prod.split)

lemma v1_3_execute_generate_platonic_eq:
  "v1_3_execute_generate_platonic props b =
     Inr (FINISHED,
          \<lparr>bpy_materials =
             (bpy_materials b)(props_shape_type props @ ''_Material'' \<mapsto>
                diffuse_color_assign (props_color props)),
           bpy_objects = (if props_clear_before_create props then [] else bpy_objects b) @
             [built_object v1_3_get_geometry (props_shape_type props)
                (case solid_classes (props_shape_type props) of Some c \<Rightarrow> c | None \<Rightarrow> Tetrahedron)
                (props_scale props) (0, 0, 0)],
           bpy_active = (if props_clear_before_create props then None else bpy_active b)\<rparr>)"
  by (simp add: v1_3_execute_generate_platonic_def solid_classes_get_def
      v1_3_add_object_Instance clear_scene_def Let_def)

lemma built_object_fields:
  "mesh_geometry (obj_data (built_object geo name k s location)) = geo k"
  "mesh_vertices (obj_data (built_object geo name k s location)) = geo_vertices (geo k)"
  "mesh_materials (obj_data (built_object geo name k s location)) = [name @ ''_Material'']"
  "obj_location (built_object geo name k s location) = location"
  "obj_scale (built_object geo name k s location) = (s, s, s)"
  "obj_selected (built_object geo name k s location) = True"
  by (simp_all add: built_object_def mesh_geometry_def geo_vertices_def geo_edges_def geo_faces_def)

lemma solid_classes_keys:
  "solid_classes ''TETRAHEDRON'' = Some Tetrahedron"
  "solid_classes ''CUBE'' = Some Cube"
  "solid_classes ''OCTAHEDRON'' = Some Octahedron"
  "solid_classes ''DODECAHEDRON'' = Some Dodecahedron"
  "solid_classes ''ICOSAHEDRON'' = Some Icosahedron"
  by (simp_all add: solid_classes_def solid_classes_items_def)

lemma solid_classes_None: "solid_classes key = None \<longleftrightarrow> key \<notin> set shape_type_items"
  by (simp add: solid_classes_def shape_type_items_def map_of_eq_None_iff)

subsection \<open>Scale\<close>

text \<open>
  C3, as the code has it. For each of the five kinds and every scale \<open>s\<close>, generation
  hands the vertices, edges and faces of the kind's table to the mesh unchanged (the
  vertices are not multiplied) and records the scale once, as the object's scale
  (s, s, s); so the mesh is the table's geometry at scale 1.0 as at any other scale.
  This holds of the operator of v2.py and of \<^verbatim>\<open>add_object\<close> of v1.3.py.
\<close>

theorem generate_scale_on_object:
  assumes "solid_classes key = Some k"
  shows "(\<exists>obj b'. execute_generate_platonic (props\<lparr>props_shape_type := key, props_scale := s\<rparr>) b
              = Inr (FINISHED, b')
            \<and> bpy_objects b' = (if props_clear_before_create props then [] else bpy_objects b) @ [obj]
            \<and> mesh_geometry (obj_data obj) = get_geometry k
            \<and> obj_scale obj = (s, s, s))
       \<and> (\<exists>obj b'. v1_3_add_object name (Instance k) color s location b = Inr (obj, b')
            \<and> bpy_objects b' = bpy_objects b @ [obj]
            \<and> mesh_geometry (obj_data obj) = v1_3_get_geometry k
            \<and> obj_scale obj = (s, s, s))"
  using assms
  by (simp add: execute_generate_platonic_eq v1_3_add_object_Instance built_object_fields)

theorem generate_scale_on_object_witness:
  "solid_classes ''CUBE'' = Some Cube \<and>
   (\<exists>obj b'. execute_generate_platonic
        \<lparr>props_shape_type = ''CUBE'', props_color = (0.8, 0.8, 0.8, 1), props_scale = 2,
         props_clear_before_create = False\<rparr> empty_bpy = Inr (FINISHED, b')
      \<and> bpy_objects b' = [obj]
      \<and> mesh_geometry (obj_data obj) = get_geometry Cube
      \<and> obj_scale obj = (2, 2, 2))"
proof -
  have key: "solid_classes ''CUBE'' = Some Cube"
    by (rule solid_classes_keys)
  show ?thesis
    using key generate_scale_on_object [OF key,
        where props = "\<lparr>props_shape_type = ''CUBE'', props_color = (0.8, 0.8, 0.8, 1),
          props_scale = 2, props_clear_before_create = False\<rparr>"
        and s = 2 and b = empty_bpy and name = "''Cube''"
        and color = "(0.8, 0.8, 0.8, 1)" and location = "(0, 0, 0)"]
    by (simp add: empty_bpy_def)
qed

theorem generate_scaled_vertices_counterexample:
  "\<exists>obj b'. execute_generate_platonic
        \<lparr>props_shape_type = ''CUBE'', props_color = (0.8, 0.8, 0.8, 1), props_scale = 2,
         props_clear_before_create = False\<rparr> empty_bpy = Inr (FINISHED, b')
      \<and> bpy_objects b' = [obj]
      \<and> mesh_vertices (obj_data obj) = geo_vertices (get_geometry Cube)
      \<and> \<not> close_vertices (1 / 1000000) (mesh_vertices (obj_data obj))
            (scaled_vertices 2 (geo_vertices (get_geometry Cube)))"
  by (simp add: execute_generate_platonic_eq built_object_fields empty_bpy_def
      solid_classes_keys close_vertices_def close_vertex_def scaled_vertices_def
      geo_vertices_def vx_def vy_def vz_def)

subsection \<open>Unrecognised kinds\<close>

text \<open>
  C4, as the code has it. For every kind name that is not one of the five keys, nothing
  fails: \<^verbatim>\<open>generate_geometry\<close> of v1.1.py returns the empty geometry, and the lookup of the
  generate operators of v2.py and v1.3.py, \<^verbatim>\<open>solid_classes.get(shape_type, Tetrahedron)\<close>,
  returns the tetrahedron's class, whose instance gives the tetrahedron's geometry.
\<close>

theorem unknown_kind_empty_or_default:
  assumes "key \<notin> set shape_type_items"
  shows "v1_1_generate_geometry key = ([], [], []) \<and>
         solid_classes_get key Tetrahedron = Tetrahedron \<and>
         solid_get_geometry (Instance (solid_classes_get key Tetrahedron)) =
           Inr (get_geometry Tetrahedron) \<and>
         v1_3_solid_get_geometry (Instance (solid_classes_get key Tetrahedron)) =
           Inr (v1_3_get_geometry Tetrahedron)"
proof -
  from assms have none: "solid_classes key = None"
    by (simp add: solid_classes_None)
  from assms have names: "key \<noteq> ''TETRAHEDRON''" "key \<noteq> ''CUBE''" "key \<noteq> ''OCTAHEDRON''"
      "key \<noteq> ''DODECAHEDRON''" "key \<noteq> ''ICOSAHEDRON''"
    by (auto simp add: shape_type_items_def solid_classes_items_def)
  from names have empty: "v1_1_generate_geometry key = ([], [], [])"
    by (simp add: v1_1_generate_geometry_def)
  from none have dflt: "solid_classes_get key Tetrahedron = Tetrahedron"
    by (simp add: solid_classes_get_def)
  from empty dflt show ?thesis
    by (simp del: get_geometry.simps v1_3_get_geometry.simps)
qed

theorem unknown_kind_empty_or_default_witness:
  "''SPHERE'' \<notin> set shape_type_items \<and>
   v1_1_generate_geometry ''SPHERE'' = ([], [], []) \<and>
   solid_classes_get ''SPHERE'' Tetrahedron = Tetrahedron \<and>
   solid_get_geometry (Instance (solid_classes_get ''SPHERE'' Tetrahedron)) =
     Inr (get_geometry Tetrahedron)"
proof -
  have key: "''SPHERE'' \<notin> set shape_type_items"
    by (simp add: shape_type_items_def solid_classes_items_def)
  from unknown_kind_empty_or_default [OF key] key show ?thesis
    by (intro conjI) (elim conjE, assumption)+
qed

theorem unknown_kind_counterexample:
  "''SPHERE'' \<notin> set shape_type_items \<and>
   v1_1_generate_geometry ''SPHERE'' = ([], [], []) \<and>
   solid_classes_get ''SPHERE'' Tetrahedron = Tetrahedron"
  by (simp add: shape_type_items_def solid_classes_items_def v1_1_generate_geometry_def
      solid_classes_get_def solid_classes_def)

subsection \<open>Scale and colour are not checked\<close>

text \<open>
  C5, as the code has it. Generation has no failure for a scale: for every scale \<open>s\<close>,
  zero and negative ones included, the operator of v2.py finishes and \<^verbatim>\<open>add_object\<close> of
  v1.3.py returns, each with an object whose scale is (s, s, s) and whose mesh is the
  geometry of the kind looked up. The only restriction on the scale is the range declared
  for the property, 0.1 to 10.0, which lies above zero.
\<close>

theorem generate_accepts_every_scale:
  "(\<exists>obj b'. execute_generate_platonic (props\<lparr>props_scale := s\<rparr>) b = Inr (FINISHED, b')
      \<and> bpy_objects b' = (if props_clear_before_create props then [] else bpy_objects b) @ [obj]
      \<and> obj_scale obj = (s, s, s)
      \<and> mesh_geometry (obj_data obj) =
          get_geometry (case solid_classes (props_shape_type props) of
                          Some c \<Rightarrow> c | None \<Rightarrow> Tetrahedron))
   \<and> (\<exists>obj b'. v1_3_add_object name (Instance k) color s location b = Inr (obj, b')
      \<and> bpy_objects b' = bpy_objects b @ [obj]
      \<and> obj_scale obj = (s, s, s)
      \<and> mesh_geometry (obj_data obj) = v1_3_get_geometry k)
   \<and> prop_min scale_prop = 0.1 \<and> prop_max scale_prop = 10 \<and> 0 < prop_min scale_prop"
  by (simp add: execute_generate_platonic_eq v1_3_add_object_Instance built_object_fields
      scale_prop_def del: get_geometry.simps v1_3_get_geometry.simps)

theorem nonpositive_scale_counterexample:
  "(\<exists>obj b'. execute_generate_platonic
        \<lparr>props_shape_type = ''CUBE'', props_color = (0.8, 0.8, 0.8, 1), props_scale = 0,
         props_clear_before_create = False\<rparr> empty_bpy = Inr (FINISHED, b')
      \<and> bpy_objects b' = [obj]
      \<and> obj_scale obj = (0, 0, 0)
      \<and> mesh_geometry (obj_data obj) = get_geometry Cube)
   \<and> (\<exists>obj b'. execute_generate_platonic
        \<lparr>props_shape_type = ''CUBE'', props_color = (0.8, 0.8, 0.8, 1), props_scale = - 1,
         props_clear_before_create = False\<rparr> empty_bpy = Inr (FINISHED, b')
      \<and> bpy_objects b' = [obj]
      \<and> obj_scale obj = (- 1, - 1, - 1)
      \<and> mesh_geometry (obj_data obj) = get_geometry Cube)
   \<and> (\<exists>obj b'. v1_3_add_object ''Cube'' (Instance Cube) (0.8, 0.8, 0.8, 1) (- 1) (0, 0, 0) empty_bpy
        = Inr (obj, b')
      \<and> bpy_objects b' = [obj]
      \<and> obj_scale obj = (- 1, - 1, - 1)
      \<and> mesh_geometry (obj_data obj) = v1_3_get_geometry Cube)"
  by (simp add: execute_generate_platonic_eq v1_3_add_object_Instance built_object_fields
      empty_bpy_def solid_classes_keys del: get_geometry.simps v1_3_get_geometry.simps)

lemma diffuse_color_assign_in_range:
  "color_in_range c \<Longrightarrow> diffuse_color_assign c = c"
  by (cases c) (simp add: color_in_range_def diffuse_color_assign_def color_prop_def)

text \<open>
  C6, as the code has it. Building has no failure for a colour: the code makes no check,
  and for every colour \<open>c\<close>, with channels inside or outside [0, 1], the operator of v2.py
  finishes and \<^verbatim>\<open>add_object\<close> of v1.3.py returns, each with an object whose mesh has one
  material slot, and \<open>c\<close> has been assigned to the colour of the material in it. For a
  colour with all channels in [0, 1] the material carries exactly that colour.
\<close>

theorem generate_accepts_every_color:
  "(\<exists>obj b'. execute_generate_platonic (props\<lparr>props_color := c\<rparr>) b = Inr (FINISHED, b')
      \<and> bpy_objects b' = (if props_clear_before_create props then [] else bpy_objects b) @ [obj]
      \<and> map (bpy_materials b') (mesh_materials (obj_data obj)) = [Some (diffuse_color_assign c)]
      \<and> (color_in_range c \<longrightarrow>
           map (bpy_materials b') (mesh_materials (obj_data obj)) = [Some c]))
   \<and> (\<exists>obj b'. v1_3_add_object name (Instance k) c s location b = Inr (obj, b')
      \<and> bpy_objects b' = bpy_objects b @ [obj]
      \<and> map (bpy_materials b') (mesh_materials (obj_data obj)) = [Some (diffuse_color_assign c)]
      \<and> (color_in_range c \<longrightarrow>
           map (bpy_materials b') (mesh_materials (obj_data obj)) = [Some c]))"
  by (simp add: execute_generate_platonic_eq v1_3_add_object_Instance built_object_fields
      diffuse_color_assign_in_range)

theorem generate_accepts_every_color_witness:
  "color_in_range (0.8, 0.8, 0.8, 1) \<and>
   (\<exists>obj b'. execute_generate_platonic
        \<lparr>props_shape_type = ''CUBE'', props_color = (0.8, 0.8, 0.8, 1), props_scale = 1,
         props_clear_before_create = False\<rparr> empty_bpy = Inr (FINISHED, b')
      \<and> bpy_objects b' = [obj]
      \<and> map (bpy_materials b') (mesh_materials (obj_data obj)) = [Some (0.8, 0.8, 0.8, 1)])"
proof -
  have range: "color_in_range (0.8, 0.8, 0.8, 1)"
    by (simp add: color_in_range_def color_prop_def)
  show ?thesis
    using range generate_accepts_every_color [
        where props = "\<lparr>props_shape_type = ''CUBE'', props_color = (0.8, 0.8, 0.8, 1),
          props_scale = 1, props_clear_before_create = False\<rparr>"
        and c = "(0.8, 0.8, 0.8, 1)" and b = empty_bpy and name = "''Cube''"
        and k = Cube and s = 1 and location = "(0, 0, 0)"]
    by (simp add: empty_bpy_def execute_generate_platonic_eq v1_3_add_object_Instance
        built_object_fields diffuse_color_assign_def)
qed

theorem color_out_of_range_counterexample:
  "\<not> color_in_range (1.5, 0, 0, 1) \<and>
   (\<exists>obj b'. execute_generate_platonic
        \<lparr>props_shape_type = ''CUBE'', props_color = (1.5, 0, 0, 1), props_scale = 1,
         props_clear_before_create = False\<rparr> empty_bpy = Inr (FINISHED, b')
      \<and> bpy_objects b' = [obj]
      \<and> map (bpy_materials b') (mesh_materials (obj_data obj)) = [Some (1.5, 0, 0, 1)])
   \<and> (\<exists>obj b'. v1_3_add_object ''Cube'' (Instance Cube) (1.5, 0, 0, 1) 1 (0, 0, 0) empty_bpy
        = Inr (obj, b')
      \<and> bpy_objects b' = [obj]
      \<and> map (bpy_materials b') (mesh_materials (obj_data obj)) = [Some (1.5, 0, 0, 1)])"
  by (simp add: execute_generate_platonic_eq v1_3_add_object_Instance built_object_fields
      empty_bpy_def color_in_range_def color_prop_def diffuse_color_assign_def)

subsection \<open>The template\<close>

lemma add_objects_template_data:
  "add_objects template_data color s b =
     Inr (b\<lparr>bpy_materials := (bpy_materials b)
               (''Tetrahedron_Material'' \<mapsto> diffuse_color_assign color,
                ''Cube_Material'' \<mapsto> diffuse_color_assign color,
                ''Octahedron_Material'' \<mapsto> diffuse_color_assign color,
                ''Dodecahedron_Material'' \<mapsto> diffuse_color_assign color,
                ''Icosahedron_Material'' \<mapsto> diffuse_color_assign color),
            bpy_objects := bpy_objects b @
              [built_object v1_3_get_geometry ''Tetrahedron'' Tetrahedron s (0, 0, 0),
               built_object v1_3_get_geometry ''Cube'' Cube s (4, 0, 0),
               built_object v1_3_get_geometry ''Octahedron'' Octahedron s (- 4, 0, 0),
               built_object v1_3_get_geometry ''Dodecahedron'' Dodecahedron s (8, 0, 0),
               built_object v1_3_get_geometry ''Icosahedron'' Icosahedron s (- 8, 0, 0)]\<rparr>)"
  by (simp add: template_data_def v1_3_add_object_Instance)

text \<open>
  C7. The template operator finishes and adds exactly 5 objects to the scene, in the order
  Tetrahedron, Cube, Octahedron, Dodecahedron, Icosahedron, each with the geometry of its
  kind, at the locations (0,0,0), (4,0,0), (-4,0,0), (8,0,0), (-8,0,0), which lie on one
  axis and are pairwise different; each has the scale of the properties, and the colour
  of the properties has been assigned to the material in its slot.
\<close>

theorem template1_layout:
  "\<exists>new b'. v1_3_execute_generate_template1 props b = Inr (FINISHED, b')
     \<and> bpy_objects b' = (if props_clear_before_create props then [] else bpy_objects b) @ new
     \<and> length new = 5
     \<and> map (\<lambda>obj. mesh_geometry (obj_data obj)) new =
         map v1_3_get_geometry [Tetrahedron, Cube, Octahedron, Dodecahedron, Icosahedron]
     \<and> map obj_location new = [(0, 0, 0), (4, 0, 0), (- 4, 0, 0), (8, 0, 0), (- 8, 0, 0)]
     \<and> distinct (map obj_location new)
     \<and> map obj_scale new = replicate 5 (props_scale props, props_scale props, props_scale props)
     \<and> map (\<lambda>obj. map (bpy_materials b') (mesh_materials (obj_data obj))) new =
         replicate 5 [Some (diffuse_color_assign (props_color props))]"
  by (simp add: v1_3_execute_generate_template1_def add_objects_template_data clear_scene_def
      Let_def built_object_fields numeral_eq_Suc del: v1_3_get_geometry.simps)

end
